theory Spec2Isabelle
  imports Complex_Main
begin

section \<open>Python values, exceptions and dictionaries\<close>

text \<open>
  The module \<^verbatim>\<open>pyTSEB/TSEBConfigFileInterface.py\<close> reads a flat key/value file
  through a subclass of the standard library's \<^verbatim>\<open>ConfigParser\<close> and turns it into a
  dictionary of model parameters.  Exceptions are values: every function that can raise
  returns \<open>exn + 'a\<close>, with \<open>Inl\<close> the exception that leaves the function.
\<close>

datatype exn =
    AttributeError string
  | TypeError string
  | KeyError string
  | ValueError
  | NoSectionError string
  | NoOptionError string string
  | ParserError string string
  | OSError string
  | InterpolationDepthError string string
  | InterpolationSyntaxError string string
  | InterpolationMissingOptionError string string

text \<open>
  \<open>NoOptionError option section\<close> and \<open>ParserError param type\<close> carry the fields the
  handlers of \<^verbatim>\<open>get_data\<close> print.  The values stored in the parameter dictionary are
  strings, integers, floats, \<^verbatim>\<open>None\<close> and lists of these.  A float is represented by
  the real number it denotes; the module stores floats and never computes with them.
\<close>

datatype pyval =
    PNone
  | PStr string
  | PInt int
  | PFloat real
  | PList "pyval list"

text \<open>Python's \<^verbatim>\<open>==\<close>: numbers compare by value across int and float, lists
  compare by length and elementwise, values of unrelated types are unequal.\<close>

fun py_eq :: "pyval \<Rightarrow> pyval \<Rightarrow> bool"
  and py_eq_list :: "pyval list \<Rightarrow> pyval list \<Rightarrow> bool" where
  "py_eq PNone b = (case b of PNone \<Rightarrow> True | _ \<Rightarrow> False)"
| "py_eq (PStr s) b = (case b of PStr t \<Rightarrow> s = t | _ \<Rightarrow> False)"
| "py_eq (PInt i) b =
     (case b of PInt j \<Rightarrow> i = j | PFloat g \<Rightarrow> real_of_int i = g | _ \<Rightarrow> False)"
| "py_eq (PFloat f) b =
     (case b of PInt j \<Rightarrow> f = real_of_int j | PFloat g \<Rightarrow> f = g | _ \<Rightarrow> False)"
| "py_eq (PList xs) b = (case b of PList ys \<Rightarrow> py_eq_list xs ys | _ \<Rightarrow> False)"
| "py_eq_list [] ys = (ys = [])"
| "py_eq_list (x # xs) ys =
     (case ys of [] \<Rightarrow> False | y # ys' \<Rightarrow> py_eq x y \<and> py_eq_list xs ys')"

text \<open>A \<^verbatim>\<open>dict\<close> keeps insertion order: assigning to a key that is present replaces
  its value in place, a new key goes to the end.\<close>

type_synonym conf = "(string \<times> pyval) list"

fun dict_set :: "string \<Rightarrow> pyval \<Rightarrow> conf \<Rightarrow> conf" where
  "dict_set k v [] = [(k, v)]"
| "dict_set k v ((k', v') # d) =
     (if k' = k then (k, v) # d else (k', v') # dict_set k v d)"

definition dict_update :: "conf \<Rightarrow> conf \<Rightarrow> conf" where
  "dict_update d new = foldl (\<lambda>acc (k, v). dict_set k v acc) d new"

definition dict_get :: "conf \<Rightarrow> string \<Rightarrow> exn + pyval" where
  "dict_get d k = (case map_of d k of None \<Rightarrow> Inl (KeyError k) | Some v \<Rightarrow> Inr v)"

text \<open>Sequencing of calls that may raise: the first exception ends the computation.\<close>

definition then_do :: "exn + 'a \<Rightarrow> ('a \<Rightarrow> exn + 'b) \<Rightarrow> exn + 'b" where
  "then_do m f = (case m of Inl e \<Rightarrow> Inl e | Inr x \<Rightarrow> f x)"

text \<open>A dictionary comprehension \<^verbatim>\<open>{p: f(p) for p in names}\<close>: the calls are made in
  the order of \<^verbatim>\<open>names\<close>, and the first one that raises ends the comprehension.\<close>

fun dict_comp :: "(string \<Rightarrow> exn + pyval) \<Rightarrow> string list \<Rightarrow> conf \<Rightarrow> exn + conf" where
  "dict_comp f [] acc = Inr acc"
| "dict_comp f (p # ps) acc =
     (case f p of Inl e \<Rightarrow> Inl e | Inr v \<Rightarrow> dict_comp f ps (dict_set p v acc))"

section \<open>The parser classes\<close>

text \<open>
  A \<^verbatim>\<open>MyConfigParser\<close> object consists of the instance attributes its own
  \<^verbatim>\<open>__init__\<close> binds (\<open>attrs\<close>, from attribute name to value) and of the content the
  base class holds: the sections read so far (\<open>sections\<close>: section name, then option
  name and raw value) and the defaults.
\<close>

record parser_obj =
  attrs :: "(string \<times> string) list"
  sections :: "(string \<times> (string \<times> string) list) list"
  defaults :: "(string \<times> string) list"

definition getattr_obj :: "parser_obj \<Rightarrow> string \<Rightarrow> exn + string" where
  "getattr_obj p name =
     (case map_of (attrs p) name of None \<Rightarrow> Inl (AttributeError name) | Some v \<Rightarrow> Inr v)"

text \<open>\<^verbatim>\<open>optionxform\<close> is \<^verbatim>\<open>str.lower\<close>: option names are stored and looked up in lower
  case.\<close>

definition lower_char :: "char \<Rightarrow> char" where
  "lower_char c =
     (case map_of (zip ''ABCDEFGHIJKLMNOPQRSTUVWXYZ'' ''abcdefghijklmnopqrstuvwxyz'') c of
        Some l \<Rightarrow> l
      | None \<Rightarrow> c)"

definition optionxform :: "string \<Rightarrow> string" where
  "optionxform s = map lower_char s"

definition default_section :: string where
  "default_section = ''DEFAULT''"

text \<open>\<^verbatim>\<open>_unify_values\<close>: the options of a section, in front of the defaults.\<close>

definition ConfigParser_unify_values :: "parser_obj \<Rightarrow> string \<Rightarrow> exn + (string \<times> string) list"
  where
  "ConfigParser_unify_values p sec =
     (case map_of (sections p) sec of
        Some d \<Rightarrow> Inr (d @ defaults p)
      | None \<Rightarrow> if sec \<noteq> default_section then Inl (NoSectionError sec) else Inr (defaults p))"

text \<open>
  \<^verbatim>\<open>ConfigParser.get(self, section, option, *, raw, vars, fallback)\<close> accepts exactly two
  positional arguments after \<^verbatim>\<open>self\<close>; a call with any other number raises
  \<^verbatim>\<open>TypeError\<close>.  The positional arguments are the list \<open>pos\<close>; \<open>fallback = None\<close>
  stands for a call that gives no fallback.  A value that is found is returned as it is
  when \<^verbatim>\<open>raw\<close> is true and goes through the interpolation's \<^verbatim>\<open>before_get\<close>
  otherwise; \<open>found\<close> is that last step.
\<close>

definition ConfigParser_get_with ::
  "(string \<Rightarrow> string \<Rightarrow> string \<Rightarrow> (string \<times> string) list \<Rightarrow> exn + pyval) \<Rightarrow>
   parser_obj \<Rightarrow> string list \<Rightarrow> pyval option \<Rightarrow> exn + pyval" where
  "ConfigParser_get_with found p pos fallback =
     (case pos of
        [sec, option] \<Rightarrow>
          (case ConfigParser_unify_values p sec of
             Inl e \<Rightarrow> (case fallback of None \<Rightarrow> Inl e | Some fb \<Rightarrow> Inr fb)
           | Inr d \<Rightarrow>
               (case map_of d (optionxform option) of
                  Some v \<Rightarrow> found sec (optionxform option) v d
                | None \<Rightarrow>
                    (case fallback of
                       None \<Rightarrow> Inl (NoOptionError (optionxform option) sec)
                     | Some fb \<Rightarrow> Inr fb)))
      | _ \<Rightarrow> Inl (TypeError ''get() takes 3 positional arguments''))"

definition ConfigParser_get_raw ::
  "parser_obj \<Rightarrow> string list \<Rightarrow> pyval option \<Rightarrow> exn + pyval" where
  "ConfigParser_get_raw p pos fallback =
     ConfigParser_get_with (\<lambda>sec option v d. Inr (PStr v)) p pos fallback"

definition ConfigParser_has_option :: "parser_obj \<Rightarrow> string \<Rightarrow> string \<Rightarrow> bool" where
  "ConfigParser_has_option p sec option =
     (if sec = [] \<or> sec = default_section
      then optionxform option \<in> fst ` set (defaults p)
      else (case map_of (sections p) sec of
              None \<Rightarrow> False
            | Some d \<Rightarrow> optionxform option \<in> fst ` set d
                        \<or> optionxform option \<in> fst ` set (defaults p)))"

text \<open>
  \<^verbatim>\<open>MyConfigParser.__init__(self, top_section, *args, **kwargs)\<close> has one required
  positional parameter; a call without it raises \<^verbatim>\<open>TypeError\<close>.  The section name is
  bound to the attribute \<^verbatim>\<open>section\<close>.  Further positional arguments go to the base
  class (they can preset the defaults, which the statements below leave arbitrary).
  Keyword arguments are not modelled: the object has the base class's default
  interpolation, \<^verbatim>\<open>BasicInterpolation\<close>.
\<close>

definition MyConfigParser_init :: "string list \<Rightarrow> exn + parser_obj" where
  "MyConfigParser_init pos =
     (case pos of
        [] \<Rightarrow> Inl (TypeError ''__init__() missing 1 required positional argument: top_section'')
      | top_section # args \<Rightarrow>
          Inr \<lparr>attrs = [(''section'', top_section)], sections = [], defaults = []\<rparr>)"

text \<open>
  \<^verbatim>\<open>MyConfigParser.get(self, option, *args, **kwargs)\<close> passes \<^verbatim>\<open>self.section\<close>, the
  option and any further positional arguments on to the base class, together with the
  keyword arguments.  \<open>MyConfigParser_get_raw\<close> is a call of it with \<^verbatim>\<open>raw=True\<close>.
\<close>

definition MyConfigParser_get_raw ::
  "parser_obj \<Rightarrow> string \<Rightarrow> string list \<Rightarrow> pyval option \<Rightarrow> exn + pyval" where
  "MyConfigParser_get_raw p option args fallback =
     then_do (getattr_obj p ''section'')
       (\<lambda>sec. ConfigParser_get_raw p (sec # option # args) fallback)"

text \<open>
  \<^verbatim>\<open>BasicInterpolation\<close>.  \<^verbatim>\<open>before_get\<close> is \<^verbatim>\<open>_interpolate_some\<close> at depth 1,
  whose first statement is
  \<^verbatim>\<open>rawval = parser.get(section, option, raw=True, fallback=rest)\<close>.  The call is
  dispatched on the parser object, so on a \<^verbatim>\<open>MyConfigParser\<close> it is the override
  above with the section in the place of the option and the option as a further
  positional argument.  Then the depth is checked against \<^verbatim>\<open>MAX_INTERPOLATION_DEPTH\<close>
  (10) and the value is expanded: \<^verbatim>\<open>%%\<close> gives \<^verbatim>\<open>%\<close>, \<^verbatim>\<open>%(name)s\<close> gives the
  value of \<^verbatim>\<open>name\<close>, expanded one level deeper when it contains \<^verbatim>\<open>%\<close>, and any
  other \<^verbatim>\<open>%\<close> is a syntax error.  \<open>interp_loop\<close> is the \<^verbatim>\<open>while\<close> loop, with the
  call one level deeper as its first argument; the first argument of
  \<open>interpolate_some\<close> counts the levels that are left.
\<close>

function interp_loop ::
  "(string \<Rightarrow> string \<Rightarrow> exn + string) \<Rightarrow> (string \<times> string) list \<Rightarrow> string \<Rightarrow> string \<Rightarrow>
   string \<Rightarrow> string \<Rightarrow> exn + string" where
  "interp_loop deeper m option sec [] accum = Inr accum"
| "interp_loop deeper m option sec (c # cs) accum =
     (if c \<noteq> CHR ''%'' then interp_loop deeper m option sec cs (accum @ [c])
      else (case cs of
              c' # cs' \<Rightarrow>
                (if c' = CHR ''%'' then interp_loop deeper m option sec cs' (accum @ ''%'')
                 else if c' = CHR ''(''
                 then (if takeWhile (\<lambda>x. x \<noteq> CHR '')'') cs' \<noteq> []
                          \<and> take 2 (dropWhile (\<lambda>x. x \<noteq> CHR '')'') cs') = '')s''
                       then (case map_of m (optionxform (takeWhile (\<lambda>x. x \<noteq> CHR '')'') cs')) of
                               None \<Rightarrow> Inl (InterpolationMissingOptionError option sec)
                             | Some v \<Rightarrow>
                                 (case (if CHR ''%'' \<in> set v then deeper v accum
                                        else Inr (accum @ v)) of
                                    Inl e \<Rightarrow> Inl e
                                  | Inr accum' \<Rightarrow>
                                      interp_loop deeper m option sec
                                        (drop 2 (dropWhile (\<lambda>x. x \<noteq> CHR '')'') cs')) accum'))
                       else Inl (InterpolationSyntaxError option sec))
                 else Inl (InterpolationSyntaxError option sec))
            | [] \<Rightarrow> Inl (InterpolationSyntaxError option sec)))"
  by pat_completeness auto
termination
  by (relation "measure (\<lambda>(deeper, m, option, sec, rest, accum). length rest)")
     (auto simp: less_Suc_eq_le intro: le_SucI le_trans [OF diff_le_self length_dropWhile_le])

primrec interpolate_some ::
  "nat \<Rightarrow> parser_obj \<Rightarrow> string \<Rightarrow> string \<Rightarrow> (string \<times> string) list \<Rightarrow> string \<Rightarrow> string \<Rightarrow>
   exn + string" where
  "interpolate_some 0 p option sec m rest accum =
     then_do (MyConfigParser_get_raw p sec [option] (Some (PStr rest)))
       (\<lambda>rawval. Inl (InterpolationDepthError option sec))"
| "interpolate_some (Suc k) p option sec m rest accum =
     then_do (MyConfigParser_get_raw p sec [option] (Some (PStr rest)))
       (\<lambda>rawval. interp_loop (\<lambda>v acc. interpolate_some k p option sec m v acc)
                    m option sec rest accum)"

definition BasicInterpolation_before_get ::
  "parser_obj \<Rightarrow> string \<Rightarrow> string \<Rightarrow> string \<Rightarrow> (string \<times> string) list \<Rightarrow> exn + pyval" where
  "BasicInterpolation_before_get p sec option v d =
     then_do (interpolate_some 10 p option sec d v []) (\<lambda>s. Inr (PStr s))"

definition ConfigParser_get ::
  "parser_obj \<Rightarrow> string list \<Rightarrow> pyval option \<Rightarrow> exn + pyval" where
  "ConfigParser_get p pos fallback =
     ConfigParser_get_with (BasicInterpolation_before_get p) p pos fallback"

definition MyConfigParser_get ::
  "parser_obj \<Rightarrow> string \<Rightarrow> string list \<Rightarrow> pyval option \<Rightarrow> exn + pyval" where
  "MyConfigParser_get p option args fallback =
     then_do (getattr_obj p ''section'')
       (\<lambda>sec. ConfigParser_get p (sec # option # args) fallback)"

text \<open>
  The base class's \<^verbatim>\<open>getint\<close> and \<^verbatim>\<open>getfloat\<close> are both \<^verbatim>\<open>_get_conv\<close> with a
  converter.  \<^verbatim>\<open>_get_conv\<close> calls \<^verbatim>\<open>conv(self.get(section, option, raw=.., vars=..))\<close>
  and turns \<^verbatim>\<open>NoSectionError\<close> and \<^verbatim>\<open>NoOptionError\<close> into the fallback when one is
  given.  On a \<^verbatim>\<open>MyConfigParser\<close> the method \<^verbatim>\<open>self.get\<close> is the override above,
  called with two positional arguments.  The converters \<^verbatim>\<open>int\<close> and \<^verbatim>\<open>float\<close> are
  Python builtins and are taken as a parameter; they raise \<^verbatim>\<open>ValueError\<close> on a string
  they cannot parse.
\<close>

definition ConfigParser_get_conv ::
  "(pyval \<Rightarrow> exn + pyval) \<Rightarrow> parser_obj \<Rightarrow> string \<Rightarrow> string \<Rightarrow> pyval option \<Rightarrow> exn + pyval"
  where
  "ConfigParser_get_conv conv p sec option fallback =
     (case then_do (MyConfigParser_get p sec [option] None) conv of
        Inl (NoSectionError s) \<Rightarrow>
          (case fallback of None \<Rightarrow> Inl (NoSectionError s) | Some fb \<Rightarrow> Inr fb)
      | Inl (NoOptionError opt s) \<Rightarrow>
          (case fallback of None \<Rightarrow> Inl (NoOptionError opt s) | Some fb \<Rightarrow> Inr fb)
      | r \<Rightarrow> r)"

text \<open>
  \<^verbatim>\<open>getint\<close> and \<^verbatim>\<open>getfloat\<close> evaluate the argument \<^verbatim>\<open>self.top_section\<close> inside the
  \<^verbatim>\<open>try\<close>; the handler catches \<^verbatim>\<open>ValueError\<close> only.
\<close>

definition MyConfigParser_getint ::
  "(pyval \<Rightarrow> exn + pyval) \<Rightarrow> parser_obj \<Rightarrow> string \<Rightarrow> pyval option \<Rightarrow> exn + pyval" where
  "MyConfigParser_getint py_int p option fallback =
     (case then_do (getattr_obj p ''top_section'')
             (\<lambda>sec. ConfigParser_get_conv py_int p sec option fallback) of
        Inl ValueError \<Rightarrow> Inl (ParserError option ''int'')
      | r \<Rightarrow> r)"

definition MyConfigParser_getfloat ::
  "(pyval \<Rightarrow> exn + pyval) \<Rightarrow> parser_obj \<Rightarrow> string \<Rightarrow> pyval option \<Rightarrow> exn + pyval" where
  "MyConfigParser_getfloat py_float p option fallback =
     (case then_do (getattr_obj p ''top_section'')
             (\<lambda>sec. ConfigParser_get_conv py_float p sec option fallback) of
        Inl ValueError \<Rightarrow> Inl (ParserError option ''float'')
      | r \<Rightarrow> r)"

definition MyConfigParser_has_option :: "parser_obj \<Rightarrow> string \<Rightarrow> exn + bool" where
  "MyConfigParser_has_option p option =
     then_do (getattr_obj p ''section'') (\<lambda>sec. Inr (ConfigParser_has_option p sec option))"

section \<open>The objects the extraction functions call\<close>

text \<open>
  The extraction functions receive their \<^verbatim>\<open>parser\<close> as an argument and call four
  methods on it: \<^verbatim>\<open>parser.get(p)\<close>, \<^verbatim>\<open>parser.getint(p, fallback=..)\<close>,
  \<^verbatim>\<open>parser.getfloat(p, fallback=..)\<close> and \<^verbatim>\<open>parser.has_option(p)\<close>.  Python
  dispatches these calls on whatever object is passed, so the argument is modelled by its
  four methods.  In \<open>getint\<close> and \<open>getfloat\<close> the second argument is the fallback;
  \<open>None\<close> stands for a call without one.
\<close>

record reader =
  get :: "string \<Rightarrow> exn + pyval"
  getint :: "string \<Rightarrow> pyval option \<Rightarrow> exn + pyval"
  getfloat :: "string \<Rightarrow> pyval option \<Rightarrow> exn + pyval"
  has_option :: "string \<Rightarrow> exn + bool"

text \<open>A \<^verbatim>\<open>MyConfigParser\<close> object seen through its methods.\<close>

definition MyConfigParser_reader ::
  "(pyval \<Rightarrow> exn + pyval) \<Rightarrow> (pyval \<Rightarrow> exn + pyval) \<Rightarrow> parser_obj \<Rightarrow> reader" where
  "MyConfigParser_reader py_int py_float p =
     \<lparr>get = (\<lambda>option. MyConfigParser_get p option [] None),
      getint = MyConfigParser_getint py_int p,
      getfloat = MyConfigParser_getfloat py_float p,
      has_option = MyConfigParser_has_option p\<rparr>"

section \<open>The class TSEBConfigFileInterface\<close>

definition SITE_DESCRIPTION :: "string list" where
  "SITE_DESCRIPTION =
     [''landcover'', ''lat'', ''lon'', ''alt'', ''stdlon'', ''z_T'', ''z_u'', ''z0_soil'']"

definition VEGETATION_PROPERTIES :: "string list" where
  "VEGETATION_PROPERTIES = [''leaf_width'', ''alpha_PT'', ''x_LAD'']"

definition SPECTRAL_PROPERTIES :: "string list" where
  "SPECTRAL_PROPERTIES =
     [''emis_C'', ''emis_S'', ''rho_vis_C'', ''tau_vis_C'', ''rho_nir_C'', ''tau_nir_C'',
      ''rho_vis_S'', ''rho_nir_S'']"

definition IMAGE_VARS :: "string list" where
  "IMAGE_VARS =
     [''T_R1'', ''T_R0'', ''VZA'', ''LAI'', ''f_c'', ''f_g'', ''h_C'', ''w_C'', ''input_mask'',
      ''subset'', ''time'', ''DOY'', ''T_A1'', ''T_A0'', ''u'', ''ea'', ''S_dn'', ''L_dn'', ''p'',
      ''flux_LR'', ''flux_LR_ancillary'']"

definition POINT_VARS :: "string list" where
  "POINT_VARS = [''f_c'', ''f_g'', ''w_C'']"

text \<open>A list comprehension \<^verbatim>\<open>[f(p) for p in names]\<close>.\<close>

fun list_comp :: "(string \<Rightarrow> exn + pyval) \<Rightarrow> string list \<Rightarrow> exn + pyval list" where
  "list_comp f [] = Inr []"
| "list_comp f (p # ps) =
     (case f p of
        Inl e \<Rightarrow> Inl e
      | Inr v \<Rightarrow> (case list_comp f ps of Inl e \<Rightarrow> Inl e | Inr vs \<Rightarrow> Inr (v # vs)))"

text \<open>\<^verbatim>\<open>_parse_common_config(parser)\<close>, statement by statement.\<close>

definition parse_common_config :: "reader \<Rightarrow> exn + conf" where
  "parse_common_config parser =
     then_do (get parser ''model'') (\<lambda>model.
     then_do (get parser ''output_file'') (\<lambda>output_file.
     then_do (getint parser ''resistance_form'' (Some PNone)) (\<lambda>resistance_form.
     then_do (getint parser ''calc_row'' (Some (PList [PInt 0, PInt 0]))) (\<lambda>calc_row.
     then_do (if \<not> py_eq calc_row (PList [PInt 0, PInt 0])
              then then_do (getfloat parser ''row_az'' None)
                     (\<lambda>row_az. Inr (PList [PInt 1, row_az]))
              else Inr calc_row) (\<lambda>calc_row'.
     then_do (getint parser ''G_form'' (Some (PInt 1))) (\<lambda>g_form.
     then_do (if py_eq g_form (PInt 0)
              then then_do (getfloat parser ''G_constant'' None)
                     (\<lambda>g_constant. Inr (PList [PList [PInt 0], g_constant]))
              else if py_eq g_form (PInt 2)
              then then_do (list_comp (\<lambda>p. getfloat parser p None)
                              [''G_amp'', ''G_phase'', ''G_shape''])
                     (\<lambda>g_params. Inr (PList [PList (PInt 2 # g_params), PFloat 12]))
              else then_do (getfloat parser ''G_ratio'' None)
                     (\<lambda>g_ratio. Inr (PList [PList [PInt 1], g_ratio]))) (\<lambda>G_form.
     let conf = dict_set ''G_form'' G_form
                 (dict_set ''calc_row'' calc_row'
                   (dict_set ''resistance_form'' resistance_form
                     (dict_set ''output_file'' output_file
                       (dict_set ''model'' model []))))
     in if py_eq model (PStr ''disTSEB'')
        then then_do (get parser ''flux_LR_method'') (\<lambda>flux_LR_method.
             then_do (getint parser ''correct_LST'' None) (\<lambda>correct_LST.
             Inr (dict_set ''correct_LST'' correct_LST
                    (dict_set ''flux_LR_method'' flux_LR_method conf))))
        else Inr conf)))))))"

text \<open>
  \<^verbatim>\<open>_parse_image_config(parser)\<close>.  The dictionary \<^verbatim>\<open>conf\<close> is local and starts
  empty; \<^verbatim>\<open>conf['model']\<close> is a lookup in it.  \<^verbatim>\<open>img_vars\<close> is a set; it is kept as
  a list without duplicates in the order of \<open>IMAGE_VARS\<close> (the order in which a set is
  traversed only decides which of several missing options is reported).
\<close>

definition parse_image_config :: "reader \<Rightarrow> exn + conf" where
  "parse_image_config parser =
     then_do (dict_comp (get parser) [''KN_b'', ''KN_c'', ''KN_C_dash''] []) (\<lambda>d1.
     then_do (dict_comp (get parser) SITE_DESCRIPTION []) (\<lambda>d2.
     then_do (dict_comp (get parser) VEGETATION_PROPERTIES []) (\<lambda>d3.
     then_do (dict_comp (get parser) SPECTRAL_PROPERTIES []) (\<lambda>d4.
     let conf = dict_update (dict_update (dict_update (dict_update [] d1) d2) d3) d4;
         img_vars = remdups IMAGE_VARS
     in
     then_do (dict_get conf ''model'') (\<lambda>m1.
     let img_vars1 = (if \<not> py_eq m1 (PStr ''DTD'')
                      then filter (\<lambda>v. v \<notin> set [''T_A0'', ''T_R0'']) img_vars
                      else img_vars)
     in
     then_do (dict_get conf ''model'') (\<lambda>m2.
     let img_vars2 = (if \<not> py_eq m2 (PStr ''disTSEB'')
                      then filter (\<lambda>v. v \<notin> set [''flux_LR'', ''flux_LR_ancillary'']) img_vars1
                      else img_vars1)
     in
     then_do (has_option parser ''subset'') (\<lambda>has_subset.
     then_do (if \<not> has_subset
              then (if ''subset'' \<in> set img_vars2
                    then Inr (removeAll ''subset'' img_vars2)
                    else Inl (KeyError ''subset''))
              else Inr img_vars2) (\<lambda>img_vars3.
     then_do (dict_comp (get parser) img_vars3 []) (\<lambda>d5.
     Inr (dict_update conf d5))))))))))"

text \<open>\<^verbatim>\<open>_parse_point_config(parser)\<close>.\<close>

definition parse_point_config :: "reader \<Rightarrow> exn + conf" where
  "parse_point_config parser =
     then_do (dict_comp (\<lambda>p. getfloat parser p None) [''KN_b'', ''KN_c'', ''KN_C_dash''] [])
       (\<lambda>d1.
     then_do (dict_comp (\<lambda>p. getfloat parser p None) SITE_DESCRIPTION []) (\<lambda>d2.
     then_do (dict_comp (\<lambda>p. getfloat parser p None) VEGETATION_PROPERTIES []) (\<lambda>d3.
     then_do (dict_comp (\<lambda>p. getfloat parser p None) SPECTRAL_PROPERTIES []) (\<lambda>d4.
     let conf = dict_update (dict_update (dict_update (dict_update [] d1) d2) d3) d4 in
     then_do (get parser ''input_file'') (\<lambda>input_file.
     then_do (dict_comp (get parser) POINT_VARS []) (\<lambda>d5.
     Inr (dict_update (dict_set ''input_file'' input_file conf) d5)))))))"

text \<open>The interface object: \<^verbatim>\<open>self.params\<close> and \<^verbatim>\<open>self.ready\<close>.\<close>

record iface =
  params :: conf
  ready :: bool

definition TSEBConfigFileInterface_init :: iface where
  "TSEBConfigFileInterface_init = \<lparr>params = [], ready = False\<rparr>"

text \<open>
  \<^verbatim>\<open>get_data(self, parser, is_image)\<close>.  The outcome of a call is the interface object
  after it, the lines printed, and the exception that leaves the method, if any.
  \<^verbatim>\<open>_parse_common_config\<close> is called before the \<^verbatim>\<open>try\<close>; the handlers catch
  \<^verbatim>\<open>NoOptionError\<close> and \<^verbatim>\<open>ParserError\<close>; the assignment to \<^verbatim>\<open>self.params\<close>
  follows the \<^verbatim>\<open>try\<close> statement.  An exception that leaves the method does so before
  any assignment to \<^verbatim>\<open>self\<close>.
\<close>

record outcome =
  obj :: iface
  printed :: "string list"
  raised :: "exn option"

definition get_data :: "iface \<Rightarrow> reader \<Rightarrow> bool \<Rightarrow> outcome" where
  "get_data self parser is_image =
     (case parse_common_config parser of
        Inl e \<Rightarrow> \<lparr>obj = self, printed = [], raised = Some e\<rparr>
      | Inr conf \<Rightarrow>
       (case (if is_image then parse_image_config parser else parse_point_config parser) of
          Inr d \<Rightarrow>
            \<lparr>obj = self\<lparr>ready := True, params := dict_update conf d\<rparr>, printed = [],
             raised = None\<rparr>
        | Inl (NoOptionError option sec) \<Rightarrow>
            \<lparr>obj = self\<lparr>params := conf\<rparr>,
             printed = [''Error: missing parameter '' @ option], raised = None\<rparr>
        | Inl (ParserError param type) \<Rightarrow>
            \<lparr>obj = self\<lparr>params := conf\<rparr>,
             printed = [''Error: could not parse parameter '' @ param @ '' as type '' @ type],
             raised = None\<rparr>
        | Inl e \<Rightarrow> \<lparr>obj = self, printed = [], raised = Some e\<rparr>))"


text \<open>
  The model classes \<^verbatim>\<open>PyTSEB\<close>, \<^verbatim>\<open>PyTSEB2T\<close>, \<^verbatim>\<open>PyDTD\<close> and \<^verbatim>\<open>PydisTSEB\<close> are
  imported from another module and are parameters here: a constructor for each class and
  the two processing methods.  What \<^verbatim>\<open>run\<close> does to the outside is recorded as a list
  of events.
\<close>

record ('m, 'r) model_lib =
  PyTSEB :: "conf \<Rightarrow> exn + 'm"
  PyTSEB2T :: "conf \<Rightarrow> exn + 'm"
  PyDTD :: "conf \<Rightarrow> exn + 'm"
  PydisTSEB :: "conf \<Rightarrow> exn + 'm"
  process_local_image :: "'m \<Rightarrow> exn + unit"
  process_point_series_array :: "'m \<Rightarrow> exn + 'r"

datatype event = Printed string | Constructed string | Called string

definition run_model ::
  "('m, 'r) model_lib \<Rightarrow> string \<Rightarrow> exn + 'm \<Rightarrow> bool \<Rightarrow> event list \<times> (exn + 'r option)" where
  "run_model lib cls constructed is_image =
     (case constructed of
        Inl e \<Rightarrow> ([], Inl e)
      | Inr model \<Rightarrow>
          (if is_image
           then (case process_local_image lib model of
                   Inl e \<Rightarrow> ([Constructed cls, Called ''process_local_image''], Inl e)
                 | Inr u \<Rightarrow> ([Constructed cls, Called ''process_local_image''], Inr None))
           else (case process_point_series_array lib model of
                   Inl e \<Rightarrow> ([Constructed cls, Called ''process_point_series_array''], Inl e)
                 | Inr r \<Rightarrow>
                     ([Constructed cls, Called ''process_point_series_array''], Inr (Some r)))))"

definition run ::
  "('m, 'r) model_lib \<Rightarrow> iface \<Rightarrow> bool \<Rightarrow> event list \<times> (exn + 'r option)" where
  "run lib self is_image =
     (if ready self
      then (case dict_get (params self) ''model'' of
              Inl e \<Rightarrow> ([], Inl e)
            | Inr m \<Rightarrow>
               (if py_eq m (PStr ''TSEB_PT'')
                then run_model lib ''PyTSEB'' (PyTSEB lib (params self)) is_image
                else if py_eq m (PStr ''TSEB_2T'')
                then run_model lib ''PyTSEB2T'' (PyTSEB2T lib (params self)) is_image
                else if py_eq m (PStr ''DTD'')
                then run_model lib ''PyDTD'' (PyDTD lib (params self)) is_image
                else if py_eq m (PStr ''disTSEB'')
                then run_model lib ''PydisTSEB'' (PydisTSEB lib (params self)) is_image
                else (case m of
                        PStr s \<Rightarrow> ([Printed (''Unknown model: '' @ s @ ''!'')], Inr None)
                      | _ \<Rightarrow> ([], Inl (TypeError ''can only concatenate str to str'')))))
      else ([Printed ''pyTSEB will not be run due to errors in the input data.''], Inr None))"

text \<open>
  \<^verbatim>\<open>parse_input_config(input_file)\<close>.  The parser is constructed first, by a call
  without arguments; then the file is opened (\<open>open_file\<close>, the file system: the lines
  of the file or \<^verbatim>\<open>OSError\<close>) and its lines, behind the line \<^verbatim>\<open>[top]\<close>, are given to
  the base class's \<^verbatim>\<open>read_file\<close>, which is a parameter.
\<close>

definition parse_input_config ::
  "(parser_obj \<Rightarrow> string list \<Rightarrow> exn + parser_obj) \<Rightarrow> (string \<Rightarrow> exn + string list) \<Rightarrow>
   string \<Rightarrow> exn + parser_obj" where
  "parse_input_config read_file open_file input_file =
     then_do (MyConfigParser_init []) (\<lambda>parser.
     then_do (open_file input_file) (\<lambda>conf_file.
     read_file parser (''[top]'' # conf_file)))"

section \<open>Example objects\<close>

text \<open>
  \<open>parser_with options\<close> is the object obtained by \<^verbatim>\<open>MyConfigParser('top')\<close> after it
  has read a file whose lines, behind the header \<^verbatim>\<open>[top]\<close>, define the given options
  (names in lower case, as the base class stores them).
\<close>

definition parser_with :: "(string \<times> string) list \<Rightarrow> exn + parser_obj" where
  "parser_with options =
     then_do (MyConfigParser_init [''top''])
       (\<lambda>p. Inr (p\<lparr>sections := [(''top'', options)]\<rparr>))"

text \<open>An image-mode file with model \<^verbatim>\<open>TSEB_PT\<close> that defines every field
  \<^verbatim>\<open>_parse_image_config\<close> reads before it looks at the model, and a point-mode file
  whose \<^verbatim>\<open>lat\<close> is not a number.\<close>

definition image_file :: "(string \<times> string) list" where
  "image_file =
     [(''model'', ''TSEB_PT''), (''output_file'', ''out.tif''), (''g_ratio'', ''0.35''),
      (''kn_b'', ''0.012''), (''kn_c'', ''0.0038''), (''kn_c_dash'', ''90''),
      (''landcover'', ''11''), (''lat'', ''38.29''), (''lon'', ''-121.12''), (''alt'', ''97''),
      (''stdlon'', ''-105''), (''z_t'', ''5''), (''z_u'', ''5''), (''z0_soil'', ''0.01''),
      (''leaf_width'', ''0.1''), (''alpha_pt'', ''1.26''), (''x_lad'', ''1''),
      (''emis_c'', ''0.98''), (''emis_s'', ''0.95''), (''rho_vis_c'', ''0.07''),
      (''tau_vis_c'', ''0.08''), (''rho_nir_c'', ''0.32''), (''tau_nir_c'', ''0.33''),
      (''rho_vis_s'', ''0.15''), (''rho_nir_s'', ''0.25''),
      (''t_r1'', ''lst.tif''), (''t_r0'', ''lst0.tif''), (''t_a0'', ''290''),
      (''flux_lr'', ''lr.tif''), (''flux_lr_ancillary'', ''anc.tif'')]"

definition point_file :: "(string \<times> string) list" where
  "point_file =
     [(''model'', ''TSEB_PT''), (''output_file'', ''out.txt''), (''g_ratio'', ''0.35''),
      (''kn_b'', ''0.012''), (''kn_c'', ''0.0038''), (''kn_c_dash'', ''90''),
      (''landcover'', ''11''), (''lat'', ''north''), (''lon'', ''-121.12''), (''alt'', ''97''),
      (''stdlon'', ''-105''), (''z_t'', ''5''), (''z_u'', ''5''), (''z0_soil'', ''0.01''),
      (''leaf_width'', ''0.1''), (''alpha_pt'', ''1.26''), (''x_lad'', ''1''),
      (''emis_c'', ''0.98''), (''emis_s'', ''0.95''), (''rho_vis_c'', ''0.07''),
      (''tau_vis_c'', ''0.08''), (''rho_nir_c'', ''0.32''), (''tau_nir_c'', ''0.33''),
      (''rho_vis_s'', ''0.15''), (''rho_nir_s'', ''0.25''),
      (''input_file'', ''in.txt''), (''f_c'', ''1''), (''f_g'', ''1''), (''w_c'', ''1'')]"

section \<open>Auxiliary facts\<close>

lemma dict_set_keys: "fst ` set (dict_set k v d) = insert k (fst ` set d)"
  by (induction k v d rule: dict_set.induct) force+

lemma dict_update_keys: "fst ` set (dict_update d new) = fst ` set d \<union> fst ` set new"
  unfolding dict_update_def
proof (induction new arbitrary: d)
  case Nil
  show ?case by simp
next
  case (Cons kv new)
  obtain k v where kv: "kv = (k, v)" by (cases kv)
  show ?case using Cons[of "dict_set k v d"] by (auto simp: kv dict_set_keys)
qed

lemma dict_comp_keys:
  "dict_comp f names acc = Inr d \<Longrightarrow> fst ` set d = fst ` set acc \<union> set names"
proof (induction names arbitrary: acc)
  case Nil
  then show ?case by simp
next
  case (Cons p ps)
  then show ?case by (auto split: sum.splits simp: dict_set_keys)
qed

lemma dict_get_absent: "k \<notin> fst ` set d \<Longrightarrow> dict_get d k = Inl (KeyError k)"
  using map_of_eq_None_iff[of d k] by (simp add: dict_get_def)

text \<open>The call that \<^verbatim>\<open>_interpolate_some\<close> makes on the parser reaches the base
  \<^verbatim>\<open>get\<close> with three positional arguments, at every depth.\<close>

lemma MyConfigParser_get_raw_reentry:
  "MyConfigParser_get_raw p sec [option] fb =
     then_do (getattr_obj p ''section'')
       (\<lambda>s. Inl (TypeError ''get() takes 3 positional arguments''))"
  by (simp add: MyConfigParser_get_raw_def ConfigParser_get_raw_def ConfigParser_get_with_def)

lemma interpolate_some_raises:
  "interpolate_some k p option sec m rest accum =
     then_do (getattr_obj p ''section'')
       (\<lambda>s. Inl (TypeError ''get() takes 3 positional arguments''))"
  by (cases k) (simp_all add: MyConfigParser_get_raw_reentry then_do_def split: sum.splits)

text \<open>So \<^verbatim>\<open>parser.get(option)\<close> raises \<^verbatim>\<open>TypeError\<close> for every option that is
  present, on every object that \<^verbatim>\<open>__init__\<close> has built.\<close>

lemma get_present_raises:
  assumes "MyConfigParser_init (t # args) = Inr p"
    and "map_of (sections q) t = Some opts"
    and "map_of (opts @ defaults q) (optionxform option) = Some v"
    and "attrs q = attrs p"
  shows "MyConfigParser_get q option [] fb = Inl (TypeError ''get() takes 3 positional arguments'')"
proof -
  have "getattr_obj q ''section'' = Inr t"
    using assms(1,4) by (auto simp: MyConfigParser_init_def getattr_obj_def)
  then show ?thesis
    using assms(2,3)
    by (simp add: MyConfigParser_get_def ConfigParser_get_def ConfigParser_get_with_def
        ConfigParser_unify_values_def BasicInterpolation_before_get_def
        interpolate_some_raises then_do_def)
qed

lemmas object_defs =
  parser_with_def MyConfigParser_init_def MyConfigParser_reader_def MyConfigParser_get_def
  MyConfigParser_getint_def MyConfigParser_getfloat_def MyConfigParser_has_option_def
  getattr_obj_def ConfigParser_get_def ConfigParser_get_with_def ConfigParser_unify_values_def
  BasicInterpolation_before_get_def interpolate_some_raises ConfigParser_has_option_def
  optionxform_def lower_char_def default_section_def then_do_def

lemmas schema_defs =
  SITE_DESCRIPTION_def VEGETATION_PROPERTIES_def SPECTRAL_PROPERTIES_def IMAGE_VARS_def
  POINT_VARS_def

text \<open>An object without the attribute \<^verbatim>\<open>top_section\<close> fails in both typed accessors
  before the base class is called.\<close>

lemma getint_without_top_section:
  "map_of (attrs p) ''top_section'' = None \<Longrightarrow>
   MyConfigParser_getint py_int p option fb = Inl (AttributeError ''top_section'')"
  by (simp add: MyConfigParser_getint_def getattr_obj_def then_do_def)

lemma getfloat_without_top_section:
  "map_of (attrs p) ''top_section'' = None \<Longrightarrow>
   MyConfigParser_getfloat py_float p option fb = Inl (AttributeError ''top_section'')"
  by (simp add: MyConfigParser_getfloat_def getattr_obj_def then_do_def)






text \<open>Image extraction raises on every parser object: when all the fields it reads first
  are present, the lookup \<^verbatim>\<open>conf['model']\<close> in its own dictionary fails.\<close>

lemma parse_image_config_raises: "\<exists>e. parse_image_config parser = Inl e"
proof (cases "parse_image_config parser")
  case (Inl e)
  then show ?thesis by blast
next
  case (Inr c)
  then obtain d1 d2 d3 d4 where
    d1: "dict_comp (get parser) [''KN_b'', ''KN_c'', ''KN_C_dash''] [] = Inr d1" and
    d2: "dict_comp (get parser) SITE_DESCRIPTION [] = Inr d2" and
    d3: "dict_comp (get parser) VEGETATION_PROPERTIES [] = Inr d3" and
    d4: "dict_comp (get parser) SPECTRAL_PROPERTIES [] = Inr d4"
    unfolding parse_image_config_def then_do_def by (auto split: sum.splits)
  let ?conf = "dict_update (dict_update (dict_update (dict_update [] d1) d2) d3) d4"
  have "fst ` set ?conf = set [''KN_b'', ''KN_c'', ''KN_C_dash''] \<union> set SITE_DESCRIPTION
          \<union> set VEGETATION_PROPERTIES \<union> set SPECTRAL_PROPERTIES"
    using dict_comp_keys[OF d1] dict_comp_keys[OF d2] dict_comp_keys[OF d3] dict_comp_keys[OF d4]
    by (simp add: dict_update_keys)
  then have "''model'' \<notin> fst ` set ?conf"
    by (simp add: SITE_DESCRIPTION_def VEGETATION_PROPERTIES_def SPECTRAL_PROPERTIES_def)
  then have "dict_get ?conf ''model'' = Inl (KeyError ''model'')"
    by (rule dict_get_absent)
  then have "parse_image_config parser = Inl (KeyError ''model'')"
    unfolding parse_image_config_def using d1 d2 d3 d4 by (simp add: then_do_def Let_def)
  then show ?thesis by blast
qed

section \<open>The claims\<close>

text \<open>
  Claim C9.  For every option name, the accessors \<^verbatim>\<open>getint\<close> and \<^verbatim>\<open>getfloat\<close> of the
  configuration reader never return a value and never raise the coercion error
  \<^verbatim>\<open>ParserError\<close>: on an object built by \<^verbatim>\<open>__init__\<close>, which binds the section to the
  attribute \<^verbatim>\<open>section\<close>, every call ends in the failed lookup of the attribute
  \<^verbatim>\<open>top_section\<close>, whatever the object has read, whether or not the option is present or
  parseable, and with or without a fallback.
\<close>

theorem typed_accessors_fail_on_top_section:
  assumes "MyConfigParser_init (t # args) = Inr p"
  shows "MyConfigParser_getint py_int (p\<lparr>sections := s, defaults := d\<rparr>) option fb
           = Inl (AttributeError ''top_section'')
       \<and> MyConfigParser_getfloat py_float (p\<lparr>sections := s, defaults := d\<rparr>) option fb
           = Inl (AttributeError ''top_section'')"
proof -
  have "map_of (attrs (p\<lparr>sections := s, defaults := d\<rparr>)) ''top_section'' = None"
    using assms by (auto simp: MyConfigParser_init_def)
  then show ?thesis
    by (simp add: getint_without_top_section getfloat_without_top_section)
qed

theorem typed_accessors_fail_on_top_section_witness:
  "MyConfigParser_init [''top'']
     = Inr \<lparr>attrs = [(''section'', ''top'')], sections = [], defaults = []\<rparr>
   \<and> MyConfigParser_getint (\<lambda>v. Inr (PInt 2))
       (\<lparr>attrs = [(''section'', ''top'')], sections = [], defaults = []\<rparr>
          \<lparr>sections := [(''top'', [(''g_form'', ''2'')])], defaults := []\<rparr>)
       ''G_form'' (Some (PInt 1))
     = Inl (AttributeError ''top_section'')
   \<and> MyConfigParser_getfloat (\<lambda>v. Inl ValueError)
       (\<lparr>attrs = [(''section'', ''top'')], sections = [], defaults = []\<rparr>
          \<lparr>sections := [(''top'', [(''g_form'', ''2'')])], defaults := []\<rparr>)
       ''G_form'' (Some (PInt 1))
     = Inl (AttributeError ''top_section'')"
proof -
  have h: "MyConfigParser_init (''top'' # [])
             = Inr \<lparr>attrs = [(''section'', ''top'')], sections = [], defaults = []\<rparr>"
    by (simp add: MyConfigParser_init_def)
  show ?thesis
    using h typed_accessors_fail_on_top_section [OF h,
      where py_int = "\<lambda>v. Inr (PInt 2)" and py_float = "\<lambda>v. Inl ValueError"
        and s = "[(''top'', [(''g_form'', ''2'')])]" and d = "[]"
        and option = "''G_form''" and fb = "Some (PInt 1)"]
    by simp
qed

text \<open>
  Claim C8.  In every state whose readiness flag is false, and for either mode flag,
  \<^verbatim>\<open>run\<close> returns no result (\<^verbatim>\<open>None\<close>), constructs no model object and calls no
  model method: its only effect is the printed line saying that the model will not be
  run.
\<close>

theorem run_not_ready:
  "\<not> ready self \<Longrightarrow>
   run lib self is_image =
     ([Printed ''pyTSEB will not be run due to errors in the input data.''], Inr None)"
  by (simp add: run_def)

theorem run_not_ready_witness:
  "\<not> ready TSEBConfigFileInterface_init
   \<and> run \<lparr>PyTSEB = (\<lambda>c. Inr (1::nat)), PyTSEB2T = (\<lambda>c. Inr 2), PyDTD = (\<lambda>c. Inr 3),
           PydisTSEB = (\<lambda>c. Inr 4), process_local_image = (\<lambda>m. Inr ()),
           process_point_series_array = (\<lambda>m. Inr (m, m))\<rparr>
         TSEBConfigFileInterface_init True
     = ([Printed ''pyTSEB will not be run due to errors in the input data.''], Inr None)
   \<and> run \<lparr>PyTSEB = (\<lambda>c. Inr (1::nat)), PyTSEB2T = (\<lambda>c. Inr 2), PyDTD = (\<lambda>c. Inr 3),
           PydisTSEB = (\<lambda>c. Inr 4), process_local_image = (\<lambda>m. Inr ()),
           process_point_series_array = (\<lambda>m. Inr (m, m))\<rparr>
         TSEBConfigFileInterface_init False
     = ([Printed ''pyTSEB will not be run due to errors in the input data.''], Inr None)"
proof -
  have h: "\<not> ready TSEBConfigFileInterface_init"
    by (simp add: TSEBConfigFileInterface_init_def)
  show ?thesis
    using h
      run_not_ready [OF h, of "\<lparr>PyTSEB = (\<lambda>c. Inr (1::nat)), PyTSEB2T = (\<lambda>c. Inr 2),
           PyDTD = (\<lambda>c. Inr 3), PydisTSEB = (\<lambda>c. Inr 4), process_local_image = (\<lambda>m. Inr ()),
           process_point_series_array = (\<lambda>m. Inr (m, m))\<rparr>" True]
      run_not_ready [OF h, of "\<lparr>PyTSEB = (\<lambda>c. Inr (1::nat)), PyTSEB2T = (\<lambda>c. Inr 2),
           PyDTD = (\<lambda>c. Inr 3), PydisTSEB = (\<lambda>c. Inr 4), process_local_image = (\<lambda>m. Inr ()),
           process_point_series_array = (\<lambda>m. Inr (m, m))\<rparr>" False]
    by simp
qed

text \<open>
  Claim C3.  The claim is that \<^verbatim>\<open>parse_input_config\<close> returns a parser for every path
  that can be opened and fails only when the path cannot be opened.  The code constructs
  the parser by \<^verbatim>\<open>MyConfigParser()\<close>, without the required argument \<^verbatim>\<open>top_section\<close>:
  for every path, every file system and every behaviour of \<^verbatim>\<open>read_file\<close> the call
  raises \<^verbatim>\<open>TypeError\<close> before the file is opened.
\<close>

theorem parse_input_config_type_error:
  "parse_input_config read_file open_file input_file =
     Inl (TypeError ''__init__() missing 1 required positional argument: top_section'')"
  by (simp add: parse_input_config_def MyConfigParser_init_def then_do_def)

text \<open>
  Claim C6.  The claim is that point-mode extraction coerces every Site Description field
  to a float and raises the coercion error naming \<^verbatim>\<open>lat\<close> and \<^verbatim>\<open>float\<close> when
  \<^verbatim>\<open>lat\<close> is present and not a number.  On a \<^verbatim>\<open>MyConfigParser\<close> that has read a
  complete point-mode file whose \<^verbatim>\<open>lat\<close> is \<^verbatim>\<open>north\<close>, \<^verbatim>\<open>_parse_point_config\<close>
  raises \<^verbatim>\<open>AttributeError\<close> at its first call of \<^verbatim>\<open>getfloat\<close>; no field is
  coerced and no \<^verbatim>\<open>ParserError\<close> is raised.
\<close>

theorem point_config_bad_lat_attribute_error:
  "then_do (parser_with point_file)
     (\<lambda>p. parse_point_config (MyConfigParser_reader py_int py_float p))
   = Inl (AttributeError ''top_section'')"
  by (simp add: parse_point_config_def point_file_def object_defs schema_defs)

text \<open>
  Claim C2.  The claim is that image-mode extraction computes the active image variables
  from the resolved model (dropping \<^verbatim>\<open>T_A0\<close>, \<^verbatim>\<open>T_R0\<close> unless the model is
  \<^verbatim>\<open>DTD\<close>, \<^verbatim>\<open>flux_LR\<close>, \<^verbatim>\<open>flux_LR_ancillary\<close> unless it is \<^verbatim>\<open>disTSEB\<close>, and
  \<^verbatim>\<open>subset\<close> unless present) and returns a mapping without the dropped fields.  On a
  \<^verbatim>\<open>MyConfigParser\<close> that has read a complete image-mode file with model
  \<^verbatim>\<open>TSEB_PT\<close>, \<^verbatim>\<open>_parse_image_config\<close> raises \<^verbatim>\<open>TypeError\<close> at its first
  \<^verbatim>\<open>parser.get('KN_b')\<close> and returns no mapping: the option is present, and the base
  class fetches its raw value through the overridden \<^verbatim>\<open>get\<close>.
\<close>

theorem parse_image_config_type_error:
  "then_do (parser_with image_file)
     (\<lambda>p. parse_image_config (MyConfigParser_reader py_int py_float p))
   = Inl (TypeError ''get() takes 3 positional arguments'')"
  by (simp add: parse_image_config_def image_file_def object_defs)

text \<open>
  Claim C4.  The claim is that common extraction yields \<^verbatim>\<open>[[0], 5.0]\<close> for
  \<^verbatim>\<open>G_form=0\<close> with \<^verbatim>\<open>G_constant=5.0\<close>, \<^verbatim>\<open>[[2,1,2,3], 12.0]\<close> for \<^verbatim>\<open>G_form=2\<close>
  with amplitude 1, phase 2 and shape 3, and \<^verbatim>\<open>[[1], 0.3]\<close> for an omitted
  \<^verbatim>\<open>G_form\<close> with \<^verbatim>\<open>G_ratio=0.3\<close>.  On a \<^verbatim>\<open>MyConfigParser\<close> that has read any of
  these three files, \<^verbatim>\<open>_parse_common_config\<close> raises \<^verbatim>\<open>TypeError\<close> at its first
  statement, \<^verbatim>\<open>parser.get('model')\<close>, and yields no mapping.
\<close>

theorem common_config_G_form_type_error:
  "then_do (parser_with [(''model'', ''TSEB_PT''), (''output_file'', ''out.tif''),
                         (''g_form'', ''0''), (''g_constant'', ''5.0'')])
     (\<lambda>p. parse_common_config (MyConfigParser_reader py_int py_float p))
   = Inl (TypeError ''get() takes 3 positional arguments'')
 \<and> then_do (parser_with [(''model'', ''TSEB_PT''), (''output_file'', ''out.tif''),
                         (''g_form'', ''2''), (''g_amp'', ''1''), (''g_phase'', ''2''),
                         (''g_shape'', ''3'')])
     (\<lambda>p. parse_common_config (MyConfigParser_reader py_int py_float p))
   = Inl (TypeError ''get() takes 3 positional arguments'')
 \<and> then_do (parser_with [(''model'', ''TSEB_PT''), (''output_file'', ''out.tif''),
                         (''g_ratio'', ''0.3'')])
     (\<lambda>p. parse_common_config (MyConfigParser_reader py_int py_float p))
   = Inl (TypeError ''get() takes 3 positional arguments'')"
  by (simp add: parse_common_config_def object_defs)

text \<open>
  Claim C7.  The claim is that common extraction yields the sentinel \<^verbatim>\<open>[0,0]\<close> when
  \<^verbatim>\<open>calc_row\<close> is omitted and \<^verbatim>\<open>[1, 45.0]\<close> for \<^verbatim>\<open>calc_row=1\<close> with
  \<^verbatim>\<open>row_az=45.0\<close>.  On a \<^verbatim>\<open>MyConfigParser\<close> that has read either file,
  \<^verbatim>\<open>_parse_common_config\<close> raises \<^verbatim>\<open>TypeError\<close> at \<^verbatim>\<open>parser.get('model')\<close>, before
  it reads \<^verbatim>\<open>calc_row\<close>.
\<close>

theorem common_config_calc_row_type_error:
  "then_do (parser_with [(''model'', ''TSEB_2T''), (''output_file'', ''out.tif''),
                         (''g_ratio'', ''0.35'')])
     (\<lambda>p. parse_common_config (MyConfigParser_reader py_int py_float p))
   = Inl (TypeError ''get() takes 3 positional arguments'')
 \<and> then_do (parser_with [(''model'', ''TSEB_2T''), (''output_file'', ''out.tif''),
                         (''calc_row'', ''1''), (''row_az'', ''45.0''), (''g_ratio'', ''0.35'')])
     (\<lambda>p. parse_common_config (MyConfigParser_reader py_int py_float p))
   = Inl (TypeError ''get() takes 3 positional arguments'')"
  by (simp add: parse_common_config_def object_defs)

text \<open>
  Claim C10.  The claim is that every \<^verbatim>\<open>calc_row\<close> present in the file, also
  \<^verbatim>\<open>calc_row=0\<close>, takes the row-correction branch, so that \<^verbatim>\<open>calc_row=0\<close> with
  \<^verbatim>\<open>row_az=45.0\<close> yields \<^verbatim>\<open>[1, 45.0]\<close>.  On a \<^verbatim>\<open>MyConfigParser\<close> that has read this
  file, \<^verbatim>\<open>_parse_common_config\<close> raises \<^verbatim>\<open>TypeError\<close> at \<^verbatim>\<open>parser.get('model')\<close>
  and yields no mapping.
\<close>

theorem common_config_calc_row_zero_type_error:
  "then_do (parser_with [(''model'', ''DTD''), (''output_file'', ''out.tif''),
                         (''calc_row'', ''0''), (''row_az'', ''45.0''), (''g_ratio'', ''0.35'')])
     (\<lambda>p. parse_common_config (MyConfigParser_reader py_int py_float p))
   = Inl (TypeError ''get() takes 3 positional arguments'')"
  by (simp add: parse_common_config_def object_defs)

text \<open>
  Claim C1.  The claim is that a load which fails on an absent or uncoercible field
  reports the field, leaves readiness false and lets no exception reach the caller, in
  particular for model \<^verbatim>\<open>disTSEB\<close> without \<^verbatim>\<open>flux_LR_method\<close>.  On a
  \<^verbatim>\<open>MyConfigParser\<close> that has read such a file, \<^verbatim>\<open>get_data\<close> lets \<^verbatim>\<open>TypeError\<close>
  reach the caller, in either mode, and prints nothing.  On a \<^verbatim>\<open>MyConfigParser\<close> that
  has read a file without the required field \<^verbatim>\<open>model\<close>, it lets the
  \<^verbatim>\<open>NoOptionError\<close> for that field reach the caller and prints nothing: common
  extraction runs before the \<^verbatim>\<open>try\<close> statement.  Readiness stays false in both.
\<close>

theorem get_data_lets_exceptions_pass:
  "then_do (parser_with [(''model'', ''disTSEB''), (''output_file'', ''out.tif''),
                         (''g_ratio'', ''0.35''), (''correct_lst'', ''1'')])
     (\<lambda>p. Inr (get_data TSEBConfigFileInterface_init
                  (MyConfigParser_reader py_int py_float p) is_image))
   = Inr \<lparr>obj = \<lparr>params = [], ready = False\<rparr>, printed = [],
          raised = Some (TypeError ''get() takes 3 positional arguments'')\<rparr>
 \<and> then_do (parser_with [(''output_file'', ''out.tif''), (''g_ratio'', ''0.35'')])
     (\<lambda>p. Inr (get_data TSEBConfigFileInterface_init
                  (MyConfigParser_reader py_int py_float p) is_image))
   = Inr \<lparr>obj = \<lparr>params = [], ready = False\<rparr>, printed = [],
          raised = Some (NoOptionError ''model'' ''top'')\<rparr>"
  by (simp add: get_data_def parse_common_config_def object_defs
      TSEBConfigFileInterface_init_def)



end
